theory Spec2Isabelle
  imports Main "HOL-Library.AList" "HOL-Library.Sublist"
begin

text \<open>
  The script interpreter of the browser-automation service: variable interpolation, the
  condition evaluator, the conversion of a script step into an action request, the
  recursive step executor with its error policies, and the script runner
  (\<open>app/core/script_engine.py\<close>, with the parts of \<open>app/core/action_executor.py\<close>,
  \<open>app/models\<close> and \<open>app/api/scripts.py\<close> it rests on). The browser is a parameter.
\<close>

section \<open>Python values\<close>

text \<open>
  The variable store, the condition dictionary and the actor's results hold values of
  Python's type \<open>Any\<close>. The engine looks at such a value in five ways only: its string
  form \<open>str(v)\<close>, its truth value, whether it is a \<open>str\<close>, whether it is \<open>None\<close>, and
  whether it can be used as a dictionary key. \<open>None\<close>, booleans, integers and strings are
  modelled as they are; every other object (a float, a list, a dictionary) is a \<open>PObj\<close>
  that carries its string form, its truth value and whether it is hashable.
\<close>

datatype pyval =
    PNone
  | PBool bool
  | PInt int
  | PStr string
  | PObj (obj_str: string) (obj_truthy: bool) (obj_hashable: bool)

text \<open>Exceptions: all of them are subclasses of \<open>Exception\<close>; each carries its message.\<close>

datatype pyexn =
    ValueError string
  | TypeError string
  | OverflowError string
  | PyException string

fun exn_msg :: "pyexn \<Rightarrow> string" where
  "exn_msg (ValueError m) = m"
| "exn_msg (TypeError m) = m"
| "exn_msg (OverflowError m) = m"
| "exn_msg (PyException m) = m"

text \<open>
  Decimal digits of a natural number, most significant first, for \<open>str\<close> of an integer
  (CPython's limit on the number of digits it converts is not modelled).
\<close>

fun nat_digits :: "nat \<Rightarrow> string" where
  "nat_digits n =
     (if n < 10 then [''0123456789'' ! n]
      else nat_digits (n div 10) @ [''0123456789'' ! (n mod 10)])"

declare nat_digits.simps [simp del]

definition int_str :: "int \<Rightarrow> string" where
  "int_str i = (if i < 0 then CHR ''-'' # nat_digits (nat (- i)) else nat_digits (nat i))"

text \<open>\<open>str(v)\<close>.\<close>

fun py_str :: "pyval \<Rightarrow> string" where
  "py_str PNone = ''None''"
| "py_str (PBool b) = (if b then ''True'' else ''False'')"
| "py_str (PInt i) = int_str i"
| "py_str (PStr s) = s"
| "py_str (PObj s t h) = s"

text \<open>The truth value of \<open>v\<close>, as \<open>not v\<close>, \<open>v and w\<close> and \<open>v or w\<close> read it.\<close>

fun truthy :: "pyval \<Rightarrow> bool" where
  "truthy PNone = False"
| "truthy (PBool b) = b"
| "truthy (PInt i) = (i \<noteq> 0)"
| "truthy (PStr s) = (s \<noteq> [])"
| "truthy (PObj s t h) = t"

text \<open>Truth value of an \<open>Optional\<close> string, list or dictionary: set and not empty.\<close>

fun truthy_opt :: "'a list option \<Rightarrow> bool" where
  "truthy_opt None = False"
| "truthy_opt (Some xs) = (xs \<noteq> [])"

fun items_of :: "'a list option \<Rightarrow> 'a list" where
  "items_of None = []"
| "items_of (Some xs) = xs"

section \<open>Strings: substring test and replace\<close>

text \<open>\<open>p in s\<close> for strings: \<open>p\<close> occurs in \<open>s\<close> as a contiguous block.\<close>

fun py_in :: "string \<Rightarrow> string \<Rightarrow> bool" where
  "py_in p [] = (p = [])"
| "py_in p (c # cs) = (prefix p (c # cs) \<or> py_in p cs)"

text \<open>
  \<open>s.replace(old, new)\<close>: the occurrences of \<open>old\<close> are found from left to right without
  overlap; after a match the scan goes on behind the matched text, so the inserted \<open>new\<close>
  is not scanned. With an empty \<open>old\<close>, \<open>new\<close> is put before every character and at the end.
\<close>

fun py_replace :: "string \<Rightarrow> string \<Rightarrow> string \<Rightarrow> string" where
  "py_replace [] new s = new @ concat (map (\<lambda>c. c # new) s)"
| "py_replace (a # old) new [] = []"
| "py_replace (a # old) new (c # cs) =
     (if prefix (a # old) (c # cs)
      then new @ py_replace (a # old) new (drop (length old) cs)
      else c # py_replace (a # old) new cs)"

section \<open>Dictionaries\<close>

text \<open>
  A Python \<open>dict\<close> keeps its keys in insertion order, and the interpolator iterates over
  the store in that order. A dictionary is an association list with distinct keys;
  \<open>d[k] = v\<close> is \<^const>\<open>AList.update\<close>: an existing key keeps its place, a new key goes to
  the end.
\<close>

type_synonym pydict = "(string \<times> pyval) list"

definition dict_get :: "pydict \<Rightarrow> string \<Rightarrow> pyval" where
  "dict_get d k = (case map_of d k of None \<Rightarrow> PNone | Some v \<Rightarrow> v)"

definition dict_update :: "pydict \<Rightarrow> pydict \<Rightarrow> pydict" where
  "dict_update d other = fold (\<lambda>(k, v). AList.update k v) other d"

text \<open>
  \<open>d.get(key)\<close> for a key of any type over a dictionary whose keys are strings: an
  unhashable key raises \<open>TypeError\<close> (Python's message goes on with the type's name),
  a key that is not a string is not found.
\<close>

fun dict_get_any :: "pydict \<Rightarrow> pyval \<Rightarrow> pyexn + pyval" where
  "dict_get_any d (PStr k) = Inr (dict_get d k)"
| "dict_get_any d (PObj s t h) = (if h then Inr PNone else Inl (TypeError ''unhashable type''))"
| "dict_get_any d v = Inr PNone"

section \<open>Interpolator\<close>

text \<open>
  \<open>ScriptEngine.interpolate_value\<close> and \<open>ActionExecutor.interpolate_value\<close> are the same
  code over the owner's own \<open>variables\<close>:
  \<^verbatim>\<open>
    if not isinstance(value, str): return value
    result = value
    for var_name, var_value in self.variables.items():
        placeholder = f"${var_name}"
        if placeholder in result:
            result = result.replace(placeholder, str(var_value))
    return result
  \<close>
\<close>

definition placeholder :: "string \<Rightarrow> string" where
  "placeholder var_name = CHR ''$'' # var_name"

definition subst_var :: "string \<times> pyval \<Rightarrow> string \<Rightarrow> string" where
  "subst_var kv result =
     (if py_in (placeholder (fst kv)) result
      then py_replace (placeholder (fst kv)) (py_str (snd kv)) result
      else result)"

definition interpolate_str :: "pydict \<Rightarrow> string \<Rightarrow> string" where
  "interpolate_str vars s = fold subst_var vars s"

fun interpolate_value :: "pydict \<Rightarrow> pyval \<Rightarrow> pyval" where
  "interpolate_value vars (PStr s) = PStr (interpolate_str vars s)"
| "interpolate_value vars v = v"

section \<open>Condition evaluator\<close>

text \<open>
  \<open>float(v)\<close> and the comparison of two floats are parameters of the model: \<open>to_float\<close>
  returns the float or the exception \<open>float\<close> raises (\<open>ValueError\<close> for a string that is
  not a number, \<open>TypeError\<close> for \<open>None\<close> or a container, \<open>OverflowError\<close> for an integer
  beyond the float range), \<open>f_less\<close> and \<open>f_le\<close> are \<open><\<close> and \<open><=\<close>; \<open>a > b\<close> is \<open>b < a\<close>.
  The type \<open>'f\<close> stands for Python's float, \<open>'d\<close> for the state of the browser driver.
\<close>

record 'f action_request =
  ar_action :: string
  ar_selector :: "string option"
  ar_url :: "string option"
  ar_text :: "string option"
  ar_value :: "string option"
  ar_attribute :: "string option"
  ar_script :: "string option"
  ar_cookies :: "pydict list option"
  ar_cookies_text :: "string option"
  ar_seconds :: "'f option"
  ar_min_seconds :: "'f option"
  ar_max_seconds :: "'f option"
  ar_tab_index :: "int option"
  ar_iframe_selector :: "string option"
  ar_save_as :: "string option"
  ar_params :: "pydict option"

record ('f, 'd) world =
  to_float :: "pyval \<Rightarrow> pyexn + 'f"
  f_less :: "'f \<Rightarrow> 'f \<Rightarrow> bool"
  f_le :: "'f \<Rightarrow> 'f \<Rightarrow> bool"
  handler :: "'f action_request \<Rightarrow> 'd \<Rightarrow> (pyexn + pyval) \<times> 'd"

text \<open>\<open>except (ValueError, TypeError): return False\<close>; any other exception goes on.\<close>

fun parse_failed :: "pyexn \<Rightarrow> pyexn + pyval" where
  "parse_failed (ValueError m) = Inr (PBool False)"
| "parse_failed (TypeError m) = Inr (PBool False)"
| "parse_failed e = Inl e"

text \<open>\<open>try: return cmp(float(actual_value), float(expected_value))\<close>, left operand first.\<close>

definition compare_floats ::
  "('f, 'd) world \<Rightarrow> ('f \<Rightarrow> 'f \<Rightarrow> bool) \<Rightarrow> pyval \<Rightarrow> pyval \<Rightarrow> pyexn + pyval" where
  "compare_floats W cmp actual_value expected_value =
     (case to_float W actual_value of
        Inl e \<Rightarrow> parse_failed e
      | Inr a \<Rightarrow>
          (case to_float W expected_value of
             Inl e \<Rightarrow> parse_failed e
           | Inr b \<Rightarrow> Inr (PBool (cmp a b))))"

text \<open>
  \<open>evaluate_condition\<close>. The result is what the Python function returns: for \<open>not_empty\<close>
  that is the value of \<open>actual_value and len(str(actual_value)) > 0\<close>, which is
  \<open>actual_value\<close> itself when that is falsy.
\<close>

definition evaluate_condition :: "('f, 'd) world \<Rightarrow> pydict \<Rightarrow> pydict \<Rightarrow> pyexn + pyval" where
  "evaluate_condition W vars condition =
     (let variable_name = dict_get condition ''variable'';
          operator = dict_get condition ''operator'';
          expected_value = dict_get condition ''value''
      in if \<not> truthy variable_name \<or> \<not> truthy operator then Inr (PBool False)
         else
           (case dict_get_any vars variable_name of
              Inl e \<Rightarrow> Inl e
            | Inr actual_value \<Rightarrow>
                (let expected_value = interpolate_value vars expected_value
                 in if operator = PStr ''equals''
                    then Inr (PBool (py_str actual_value = py_str expected_value))
                    else if operator = PStr ''not_equals''
                    then Inr (PBool (py_str actual_value \<noteq> py_str expected_value))
                    else if operator = PStr ''contains''
                    then Inr (PBool (py_in (py_str expected_value) (py_str actual_value)))
                    else if operator = PStr ''not_contains''
                    then Inr (PBool (\<not> py_in (py_str expected_value) (py_str actual_value)))
                    else if operator = PStr ''greater_than''
                    then compare_floats W (\<lambda>a b. f_less W b a) actual_value expected_value
                    else if operator = PStr ''less_than''
                    then compare_floats W (\<lambda>a b. f_less W a b) actual_value expected_value
                    else if operator = PStr ''greater_equal''
                    then compare_floats W (\<lambda>a b. f_le W b a) actual_value expected_value
                    else if operator = PStr ''less_equal''
                    then compare_floats W (\<lambda>a b. f_le W a b) actual_value expected_value
                    else if operator = PStr ''exists''
                    then Inr (PBool (actual_value \<noteq> PNone))
                    else if operator = PStr ''not_exists''
                    then Inr (PBool (actual_value = PNone))
                    else if operator = PStr ''is_empty''
                    then Inr (PBool (\<not> truthy actual_value \<or> length (py_str actual_value) = 0))
                    else if operator = PStr ''not_empty''
                    then Inr (if truthy actual_value
                              then PBool (length (py_str actual_value) > 0)
                              else actual_value)
                    else Inr (PBool False))))"

section \<open>Steps, scripts and the engine's state\<close>

text \<open>
  \<open>ScriptStep\<close>. A step is recursive through its three bodies, so it is a datatype with
  the model's field names as selectors (\<open>text\<close> and \<open>value\<close> are \<open>text_field\<close> and
  \<open>value_field\<close>). An \<open>Optional\<close> field is an \<open>option\<close>.
\<close>

datatype step = Step
  (action: string)
  (selector: "string option")
  (url: "string option")
  (text_field: "string option")
  (value_field: "string option")
  (script: "string option")
  (save_as: "string option")
  (condition: "pydict option")
  (then_steps: "step list option")
  (else_steps: "step list option")
  (loop_range: "int list option")
  (loop_variable: "string option")
  (loop_steps: "step list option")
  (on_error: "string option")
  (max_retry: "int option")

record script_doc =
  script_name :: string
  description :: "string option"
  script_variables :: pydict
  session_config :: "pydict option"
  steps :: "step list"

text \<open>
  The engine's mutable state: its own \<open>variables\<close>, the \<open>variables\<close> of its
  \<open>ActionExecutor\<close> (the same dictionary object when the engine was made with a
  non-empty dictionary, another empty one otherwise; the engine writes every change to
  both), the counter, and the browser driver.
\<close>

record 'd engine =
  variables :: pydict
  ae_variables :: pydict
  steps_completed :: int
  driver :: 'd

text \<open>The run result; \<open>execution_time\<close> is wall-clock time and is left out.\<close>

record run_result =
  run_success :: bool
  run_steps_completed :: int
  run_variables :: pydict
  run_error :: "string option"

text \<open>\<open>ScriptEngine.__init__\<close>: \<open>self.variables = variables or {}\<close>, handed on to the executor.\<close>

definition new_engine :: "pydict option \<Rightarrow> 'd \<Rightarrow> 'd engine" where
  "new_engine vars d =
     \<lparr> variables = (if truthy_opt vars then items_of vars else []),
       ae_variables = (if truthy_opt vars then items_of vars else []),
       steps_completed = 0,
       driver = d \<rparr>"

section \<open>Action dispatcher\<close>

text \<open>The values of the enumeration \<open>ActionType\<close>.\<close>

definition action_types :: "string list" where
  "action_types =
     [''navigate'', ''google_get'', ''get_via'', ''back'',
      ''forward'', ''refresh'', ''click'', ''type'',
      ''clear'', ''select_option'', ''scroll'', ''scroll_into_view'',
      ''hover'', ''focus'', ''drag_and_drop'', ''get_text'',
      ''get_attribute'', ''get_html'', ''get_page_html'', ''get_page_text'',
      ''get_url'', ''get_title'', ''get_cookies'', ''is_element_present'',
      ''soupify'', ''soupify_select'', ''soupify_select_all'', ''run_js'',
      ''run_cdp'', ''set_cookies'', ''delete_cookies'', ''load_cookies_netscape'',
      ''screenshot'', ''screenshot_element'', ''new_tab'', ''switch_tab'',
      ''close_tab'', ''get_tabs'', ''select_iframe'', ''get_iframe_by_link'',
      ''exit_iframe'', ''sleep'', ''random_sleep'', ''wait_for_navigation'',
      ''wait_for_element'', ''enable_human_mode'', ''disable_human_mode'', ''fetch_get'',
      ''fetch_post'']"

text \<open>\<open>self.interpolate_value(step.f) if step.f else None\<close>.\<close>

definition interpolate_field :: "pydict \<Rightarrow> string option \<Rightarrow> string option" where
  "interpolate_field vars f =
     (if truthy_opt f then map_option (interpolate_str vars) f else None)"

text \<open>
  \<open>ScriptEngine._step_to_action\<close>. \<open>ActionType(step.action)\<close> raises \<open>ValueError\<close> for a
  string that is no member of the enumeration; the request's other fields keep the
  defaults of \<open>ActionRequest\<close>.
\<close>

definition step_to_action :: "pydict \<Rightarrow> step \<Rightarrow> pyexn + 'f action_request" where
  "step_to_action vars st =
     (if action st \<in> set action_types
      then Inr \<lparr> ar_action = action st,
                 ar_selector = interpolate_field vars (selector st),
                 ar_url = interpolate_field vars (url st),
                 ar_text = interpolate_field vars (text_field st),
                 ar_value = interpolate_field vars (value_field st),
                 ar_attribute = None,
                 ar_script = interpolate_field vars (script st),
                 ar_cookies = None,
                 ar_cookies_text = None,
                 ar_seconds = None,
                 ar_min_seconds = None,
                 ar_max_seconds = None,
                 ar_tab_index = None,
                 ar_iframe_selector = None,
                 ar_save_as = None,
                 ar_params = None \<rparr>
      else Inl (ValueError (CHR 0x27 # action st @ CHR 0x27 # '' is not a valid ActionType'')))"

text \<open>\<open>ActionExecutor.interpolate_params\<close>, over the executor's variables.\<close>

definition interpolate_params :: "pydict \<Rightarrow> 'f action_request \<Rightarrow> 'f action_request" where
  "interpolate_params vars a =
     a \<lparr> ar_selector := map_option (interpolate_str vars) (ar_selector a),
         ar_url := map_option (interpolate_str vars) (ar_url a),
         ar_text := map_option (interpolate_str vars) (ar_text a),
         ar_value := map_option (interpolate_str vars) (ar_value a),
         ar_attribute := map_option (interpolate_str vars) (ar_attribute a),
         ar_script := map_option (interpolate_str vars) (ar_script a),
         ar_cookies_text := map_option (interpolate_str vars) (ar_cookies_text a),
         ar_iframe_selector := map_option (interpolate_str vars) (ar_iframe_selector a),
         ar_params :=
           (if truthy_opt (ar_params a)
            then map_option (map (\<lambda>(key, v). (key, interpolate_value vars v))) (ar_params a)
            else ar_params a) \<rparr>"

text \<open>
  \<open>ActionExecutor.execute\<close>: interpolate the request, look the handler up by the action
  kind and call it. The table has an entry for each of the 49 kinds; the handlers
  together are the \<open>handler\<close> of the world.
\<close>

definition execute ::
  "('f, 'd) world \<Rightarrow> pydict \<Rightarrow> 'f action_request \<Rightarrow> 'd \<Rightarrow> (pyexn + pyval) \<times> 'd" where
  "execute W vars a d = handler W (interpolate_params vars a) d"

text \<open>\<open>ActionExecutor._sleep\<close>; the time that passes is not part of the state.\<close>

definition sleep_handler :: "'f action_request \<Rightarrow> 'd \<Rightarrow> (pyexn + pyval) \<times> 'd" where
  "sleep_handler a d =
     (if ar_seconds a = None then (Inl (ValueError ''Seconds is required for sleep action''), d)
      else (Inr PNone, d))"

section \<open>Step executor\<close>

text \<open>\<open>self.variables[k] = v; self.action_executor.variables[k] = v\<close>.\<close>

definition set_variable :: "string \<Rightarrow> pyval \<Rightarrow> 'd engine \<Rightarrow> 'd engine" where
  "set_variable k v \<sigma> =
     \<sigma> \<lparr> variables := AList.update k v (variables \<sigma>),
         ae_variables := AList.update k v (ae_variables \<sigma>) \<rparr>"

definition count_step :: "'d engine \<Rightarrow> 'd engine" where
  "count_step \<sigma> = \<sigma> \<lparr> steps_completed := steps_completed \<sigma> + 1 \<rparr>"

text \<open>\<open>step.on_error or "abort"\<close> and \<open>step.max_retry or 3\<close>.\<close>

definition error_strategy :: "step \<Rightarrow> string" where
  "error_strategy st = (if truthy_opt (on_error st) then items_of (on_error st) else ''abort'')"

definition max_retry_of :: "step \<Rightarrow> int" where
  "max_retry_of st = (case max_retry st of None \<Rightarrow> 3 | Some m \<Rightarrow> if m \<noteq> 0 then m else 3)"

text \<open>The regular action execution at the end of the \<open>try\<close> block.\<close>

definition dispatch_action ::
  "('f, 'd) world \<Rightarrow> step \<Rightarrow> 'd engine \<Rightarrow> (pyexn + pyval) \<times> 'd engine" where
  "dispatch_action W st \<sigma> =
     (case step_to_action (variables \<sigma>) st of
        Inl e \<Rightarrow> (Inl e, \<sigma>)
      | Inr action_request \<Rightarrow>
          (case execute W (ae_variables \<sigma>) action_request (driver \<sigma>) of
             (Inl e, d') \<Rightarrow> (Inl e, \<sigma> \<lparr> driver := d' \<rparr>)
           | (Inr result, d') \<Rightarrow>
               (Inr result,
                count_step
                  (if truthy_opt (save_as st)
                   then set_variable (items_of (save_as st)) result (\<sigma> \<lparr> driver := d' \<rparr>)
                   else \<sigma> \<lparr> driver := d' \<rparr>))))"

text \<open>
  \<open>ScriptEngine.execute_step\<close>. An outcome is the returned value or the raised exception,
  together with the state at that moment: what a step did before it failed stays done.
  \<^item> \<open>try_body\<close> is the \<open>try\<close> block: conditional, loop or action, in this order;
  \<^item> \<open>execute_step\<close> is the block with its \<open>except Exception\<close> handler: skip, retry (the
    step again with \<open>retry_count + 1\<close>) or raise again; the delay before a retry is not
    part of the state;
  \<^item> \<open>run_steps\<close> is \<open>for s in steps: self.execute_step(s)\<close>;
  \<^item> \<open>run_loop\<close> is \<open>for i in range(i, stop)\<close> with the assignment of the loop variable
    and the body.
\<close>

function
  execute_step ::
    "('f, 'd) world \<Rightarrow> step \<Rightarrow> nat \<Rightarrow> 'd engine \<Rightarrow> (pyexn + pyval) \<times> 'd engine" and
  try_body ::
    "('f, 'd) world \<Rightarrow> step \<Rightarrow> 'd engine \<Rightarrow> (pyexn + pyval) \<times> 'd engine" and
  run_steps ::
    "('f, 'd) world \<Rightarrow> step list \<Rightarrow> 'd engine \<Rightarrow> (pyexn + unit) \<times> 'd engine" and
  run_loop ::
    "('f, 'd) world \<Rightarrow> string \<Rightarrow> step list \<Rightarrow> int \<Rightarrow> int \<Rightarrow> 'd engine
      \<Rightarrow> (pyexn + unit) \<times> 'd engine"
where
  "execute_step W st retry_count \<sigma> =
     (case try_body W st \<sigma> of
        (Inr result, \<sigma>') \<Rightarrow> (Inr result, \<sigma>')
      | (Inl e, \<sigma>') \<Rightarrow>
          if error_strategy st = ''skip'' then (Inr PNone, count_step \<sigma>')
          else if error_strategy st = ''retry'' \<and> int retry_count < max_retry_of st
          then execute_step W st (Suc retry_count) \<sigma>'
          else (Inl e, \<sigma>'))"
| "try_body W st \<sigma> =
     (if truthy_opt (condition st) \<and> truthy_opt (then_steps st) then
        (case evaluate_condition W (variables \<sigma>) (items_of (condition st)) of
           Inl e \<Rightarrow> (Inl e, \<sigma>)
         | Inr condition_result \<Rightarrow>
             (case (if truthy condition_result \<and> truthy_opt (then_steps st)
                    then run_steps W (items_of (then_steps st)) \<sigma>
                    else if \<not> truthy condition_result \<and> truthy_opt (else_steps st)
                    then run_steps W (items_of (else_steps st)) \<sigma>
                    else (Inr (), \<sigma>)) of
                (Inl e, \<sigma>') \<Rightarrow> (Inl e, \<sigma>')
              | (Inr u, \<sigma>') \<Rightarrow> (Inr PNone, count_step \<sigma>')))
      else if truthy_opt (loop_range st) \<and> truthy_opt (loop_steps st) then
        (if length (items_of (loop_range st)) \<noteq> 2
         then (Inl (ValueError ''loop_range must have exactly 2 elements: [start, end]''), \<sigma>)
         else
           (case run_loop W
                   (if truthy_opt (loop_variable st) then items_of (loop_variable st) else ''i'')
                   (items_of (loop_steps st))
                   (items_of (loop_range st) ! 0)
                   (items_of (loop_range st) ! 1 + 1) \<sigma> of
              (Inl e, \<sigma>') \<Rightarrow> (Inl e, \<sigma>')
            | (Inr u, \<sigma>') \<Rightarrow> (Inr PNone, count_step \<sigma>')))
      else dispatch_action W st \<sigma>)"
| "run_steps W [] \<sigma> = (Inr (), \<sigma>)"
| "run_steps W (st # rest) \<sigma> =
     (case execute_step W st 0 \<sigma> of
        (Inl e, \<sigma>') \<Rightarrow> (Inl e, \<sigma>')
      | (Inr result, \<sigma>') \<Rightarrow> run_steps W rest \<sigma>')"
| "run_loop W loop_var body i stop \<sigma> =
     (if i < stop then
        (case run_steps W body (set_variable loop_var (PInt i) \<sigma>) of
           (Inl e, \<sigma>') \<Rightarrow> (Inl e, \<sigma>')
         | (Inr u, \<sigma>') \<Rightarrow> run_loop W loop_var body (i + 1) stop \<sigma>')
      else (Inr (), \<sigma>))"
  by pat_completeness auto

text \<open>
  Every run ends: a body is smaller than its step, a retry uses up one of the
  \<open>max_retry\<close> attempts that are left, a loop iteration one of the remaining indices.
\<close>

termination
  apply (relation "inv_image (less_than <*lex*> less_than)
     (\<lambda>x. case x of
        Inl (Inl (W, st, rc, \<sigma>)) \<Rightarrow> (2 * size st + 1, nat (max_retry_of st - int rc))
      | Inl (Inr (W, st, \<sigma>)) \<Rightarrow> (2 * size st, 0)
      | Inr (Inl (W, ss, \<sigma>)) \<Rightarrow> (2 * size_list size ss, 0)
      | Inr (Inr (W, lv, body, i, stop, \<sigma>)) \<Rightarrow>
          (2 * size_list size body + 1, nat (stop - i)))")
  subgoal by (intro wf_inv_image wf_lex_prod wf_less_than)
  subgoal by simp
  subgoal by simp
  subgoal for W st \<sigma> b by (cases st; cases "then_steps st") auto
  subgoal for W st \<sigma> b by (cases st; cases "else_steps st") auto
  subgoal for W st \<sigma> by (cases st; cases "loop_steps st") auto
  subgoal by simp
  subgoal by simp
  subgoal by simp
  subgoal by simp
  done

declare execute_step.simps [simp del]
declare try_body.simps [simp del]
declare run_loop.simps [simp del]

section \<open>Script runner\<close>

text \<open>
  \<open>if script.variables: self.variables.update(script.variables)\<close>, and the same for the
  executor's variables.
\<close>

definition merge_script_variables :: "script_doc \<Rightarrow> 'd engine \<Rightarrow> 'd engine" where
  "merge_script_variables sc \<sigma> =
     (if script_variables sc \<noteq> []
      then \<sigma> \<lparr> variables := dict_update (variables \<sigma>) (script_variables sc),
               ae_variables := dict_update (ae_variables \<sigma>) (script_variables sc) \<rparr>
      else \<sigma>)"

text \<open>\<open>ScriptEngine.execute_script\<close>: the result record and the engine's state after the run.\<close>

definition execute_script ::
  "('f, 'd) world \<Rightarrow> script_doc \<Rightarrow> 'd engine \<Rightarrow> run_result \<times> 'd engine" where
  "execute_script W sc \<sigma> =
     (case run_steps W (steps sc) (merge_script_variables sc (\<sigma> \<lparr> steps_completed := 0 \<rparr>)) of
        (Inr u, \<sigma>') \<Rightarrow>
          (\<lparr> run_success = True,
              run_steps_completed = steps_completed \<sigma>',
              run_variables = variables \<sigma>',
              run_error = None \<rparr>, \<sigma>')
      | (Inl e, \<sigma>') \<Rightarrow>
          (\<lparr> run_success = False,
              run_steps_completed = steps_completed \<sigma>',
              run_variables = variables \<sigma>',
              run_error = Some (exn_msg e) \<rparr>, \<sigma>'))"

text \<open>
  The variables \<open>run_script\<close> of the API makes the engine with:
  \<open>variables = script.variables.copy(); if request.variables: variables.update(request.variables)\<close>,
  and the run it starts (session handling and the HTTP response are left out).
\<close>

definition run_script_variables :: "script_doc \<Rightarrow> pydict option \<Rightarrow> pydict" where
  "run_script_variables sc request_variables =
     (if truthy_opt request_variables
      then dict_update (script_variables sc) (items_of request_variables)
      else script_variables sc)"

definition run_script ::
  "('f, 'd) world \<Rightarrow> script_doc \<Rightarrow> pydict option \<Rightarrow> 'd \<Rightarrow> run_result \<times> 'd engine" where
  "run_script W sc request_variables d =
     execute_script W sc (new_engine (Some (run_script_variables sc request_variables)) d)"

section \<open>Vocabulary of the statements\<close>





text \<open>
  The loop as the specification words it: for each \<open>i\<close> of a list of indices, in order,
  write \<open>i\<close> into the loop variable, then run the body; the first error ends the loop.
\<close>

fun loop_over ::
  "('f, 'd) world \<Rightarrow> string \<Rightarrow> step list \<Rightarrow> int list \<Rightarrow> 'd engine
    \<Rightarrow> (pyexn + unit) \<times> 'd engine" where
  "loop_over W loop_var body [] \<sigma> = (Inr (), \<sigma>)"
| "loop_over W loop_var body (i # rest) \<sigma> =
     (case run_steps W body (set_variable loop_var (PInt i) \<sigma>) of
        (Inl e, \<sigma>') \<Rightarrow> (Inl e, \<sigma>')
      | (Inr u, \<sigma>') \<Rightarrow> loop_over W loop_var body rest \<sigma>')"

text \<open>
  What reaches the handler in a string field of the request: the step's field, if it is
  set and not empty, interpolated over the engine's variables and then over the
  executor's.
\<close>

definition passed_field :: "pydict \<Rightarrow> pydict \<Rightarrow> string option \<Rightarrow> string option" where
  "passed_field vars ae_vars f =
     (if truthy_opt f then Some (interpolate_str ae_vars (interpolate_str vars (items_of f)))
      else None)"

text \<open>
  The conditional and the loop as the specification words them. Conditional: evaluate the
  condition; if it holds run the \<open>then\<close> body, else the \<open>else\<close> body (an absent one is
  empty); the conditional is one completed step. Loop: a range that has not exactly two
  bounds is an error; else run the body for each index from the first bound to the
  second, both included; the loop is one completed step.
\<close>

definition spec_conditional ::
  "('f, 'd) world \<Rightarrow> pydict \<Rightarrow> step list \<Rightarrow> step list \<Rightarrow> 'd engine
    \<Rightarrow> (pyexn + pyval) \<times> 'd engine" where
  "spec_conditional W cond then_body else_body \<sigma> =
     (case evaluate_condition W (variables \<sigma>) cond of
        Inl e \<Rightarrow> (Inl e, \<sigma>)
      | Inr r \<Rightarrow>
          (case (if truthy r then run_steps W then_body \<sigma> else run_steps W else_body \<sigma>) of
             (Inl e, \<sigma>') \<Rightarrow> (Inl e, \<sigma>')
           | (Inr u, \<sigma>') \<Rightarrow> (Inr PNone, count_step \<sigma>')))"

definition spec_loop ::
  "('f, 'd) world \<Rightarrow> int list \<Rightarrow> string option \<Rightarrow> step list \<Rightarrow> 'd engine
    \<Rightarrow> (pyexn + pyval) \<times> 'd engine" where
  "spec_loop W bounds loop_var body \<sigma> =
     (if length bounds \<noteq> 2
      then (Inl (ValueError ''loop_range must have exactly 2 elements: [start, end]''), \<sigma>)
      else
        (case loop_over W (if truthy_opt loop_var then items_of loop_var else ''i'') body
                [bounds ! 0..bounds ! 1] \<sigma> of
           (Inl e, \<sigma>') \<Rightarrow> (Inl e, \<sigma>')
         | (Inr u, \<sigma>') \<Rightarrow> (Inr PNone, count_step \<sigma>')))"

text \<open>
  A counter beside the code: how many times \<open>execute_step\<close> runs the \<open>try\<close> block of a
  step, the first attempt and the retries. It follows the \<open>except\<close> handler branch by
  branch.
\<close>

function attempts :: "('f, 'd) world \<Rightarrow> step \<Rightarrow> nat \<Rightarrow> 'd engine \<Rightarrow> nat" where
  "attempts W st retry_count \<sigma> =
     (case try_body W st \<sigma> of
        (Inr result, \<sigma>') \<Rightarrow> 1
      | (Inl e, \<sigma>') \<Rightarrow>
          if error_strategy st = ''skip'' then 1
          else if error_strategy st = ''retry'' \<and> int retry_count < max_retry_of st
          then Suc (attempts W st (Suc retry_count) \<sigma>')
          else 1)"
  by pat_completeness auto
termination
  by (relation "measure (\<lambda>(W, st, rc, \<sigma>). nat (max_retry_of st - int rc))") auto

declare attempts.simps [simp del]

section \<open>A blank page: the actor of the examples\<close>

text \<open>
  The examples run against a browser that shows one page without any element. Its state
  is the current URL and the list of the action kinds dispatched so far. Four handlers
  are written out as in \<open>ActionExecutor\<close> (\<open>_navigate\<close>, \<open>_click\<close>, \<open>_get_url\<close>, \<open>_sleep\<close>);
  on this page \<open>get_element_or_none\<close> finds nothing, so a click with a selector raises
  \<open>Element not found\<close>. The examples use no other kind, and the example actor raises for
  them.
\<close>

record blank_page =
  current_url :: string
  dispatched :: "string list"

definition navigate_handler ::
  "'f action_request \<Rightarrow> blank_page \<Rightarrow> (pyexn + pyval) \<times> blank_page" where
  "navigate_handler a d =
     (if \<not> truthy_opt (ar_url a) then (Inl (ValueError ''URL is required for navigate action''), d)
      else (Inr (PStr (items_of (ar_url a))), d \<lparr> current_url := items_of (ar_url a) \<rparr>))"

definition click_handler ::
  "'f action_request \<Rightarrow> blank_page \<Rightarrow> (pyexn + pyval) \<times> blank_page" where
  "click_handler a d =
     (if \<not> truthy_opt (ar_selector a)
      then (Inl (ValueError ''Selector is required for click action''), d)
      else (Inl (PyException (''Element not found: '' @ items_of (ar_selector a))), d))"

definition get_url_handler ::
  "'f action_request \<Rightarrow> blank_page \<Rightarrow> (pyexn + pyval) \<times> blank_page" where
  "get_url_handler a d = (Inr (PStr (current_url d)), d)"

definition blank_page_handler ::
  "'f action_request \<Rightarrow> blank_page \<Rightarrow> (pyexn + pyval) \<times> blank_page" where
  "blank_page_handler a d =
     (let d' = d \<lparr> dispatched := dispatched d @ [ar_action a] \<rparr>
      in if ar_action a = ''navigate'' then navigate_handler a d'
         else if ar_action a = ''click'' then click_handler a d'
         else if ar_action a = ''get_url'' then get_url_handler a d'
         else if ar_action a = ''sleep'' then sleep_handler a d'
         else (Inl (PyException ''not an action of the example actor''), d'))"

text \<open>
  The float conversion of the examples, with integers for floats. It agrees with Python's
  \<open>float\<close> on what the examples convert: \<open>None\<close> (a \<open>TypeError\<close>), booleans, integers
  below \<open>2^53\<close> in size, strings of decimal digits, and the text \<open>abc\<close> (a \<open>ValueError\<close>,
  which it raises for every string that is not made of digits).
\<close>

definition digits_value :: "string \<Rightarrow> int" where
  "digits_value s = foldl (\<lambda>n c. 10 * n + (of_char c - 48)) 0 s"

fun example_float :: "pyval \<Rightarrow> pyexn + int" where
  "example_float PNone = Inl (TypeError ''float() argument must be a string or a real number'')"
| "example_float (PBool b) = Inr (if b then 1 else 0)"
| "example_float (PInt i) = Inr i"
| "example_float (PStr s) =
     (if s \<noteq> [] \<and> list_all (\<lambda>c. c \<in> set ''0123456789'') s then Inr (digits_value s)
      else Inl (ValueError (''could not convert string to float: '' @ s)))"
| "example_float (PObj s t h) = Inl (TypeError ''float() argument must be a string or a real number'')"

definition example_world :: "(int, blank_page) world" where
  "example_world =
     \<lparr> to_float = example_float, f_less = (<), f_le = (\<le>), handler = blank_page_handler \<rparr>"

definition blank :: blank_page where
  "blank = \<lparr> current_url = ''about:blank'', dispatched = [] \<rparr>"

text \<open>
  Steps of the examples: a click on an element that the page does not have, with a given
  error policy; \<open>get_url\<close>, saved as \<open>here\<close>; a \<open>sleep\<close>. The fields that are not
  given have the defaults of \<open>ScriptStep\<close>.
\<close>

definition click_missing :: "string option \<Rightarrow> int option \<Rightarrow> step" where
  "click_missing oe mr =
     Step ''click'' (Some ''#missing'') None None None None None None None None None None None oe mr"

definition get_url_step :: step where
  "get_url_step =
     Step ''get_url'' None None None None None (Some ''here'') None None None None None None
       (Some ''abort'') (Some 3)"

definition sleep_step :: step where
  "sleep_step =
     Step ''sleep'' None None None None None None None None None None None None
       (Some ''abort'') (Some 3)"

section \<open>Properties of the interpolator\<close>

lemma py_in_sublist: "py_in p s \<longleftrightarrow> sublist p s"
  by (induction s) (auto simp: sublist_Cons_right)

lemma py_in_set: "py_in p s \<Longrightarrow> set p \<subseteq> set s"
  by (simp add: py_in_sublist set_mono_sublist)

lemma placeholder_needs_dollar: "CHR ''$'' \<notin> set s \<Longrightarrow> \<not> py_in (placeholder k) s"
  using py_in_set [of "placeholder k" s] by (auto simp: placeholder_def)

lemma subst_var_no_dollar: "CHR ''$'' \<notin> set s \<Longrightarrow> subst_var kv s = s"
  by (simp add: subst_var_def placeholder_needs_dollar)

lemma interpolate_str_no_dollar: "CHR ''$'' \<notin> set s \<Longrightarrow> interpolate_str vars s = s"
  unfolding interpolate_str_def
  by (induction vars) (simp_all add: subst_var_no_dollar)

text \<open>
  Claim C9. A string without the character \<open>$\<close> comes back from interpolation as it is,
  so interpolating it twice is interpolating it once; a value that is not a string
  (\<open>None\<close>, a boolean, an integer, any other object) comes back as it is, whatever the
  store holds.
\<close>

theorem interpolate_idempotent_without_dollar:
  assumes "CHR ''$'' \<notin> set s"
  shows "interpolate_value vars (PStr s) = PStr s
       \<and> interpolate_value vars (interpolate_value vars (PStr s)) = interpolate_value vars (PStr s)
       \<and> interpolate_value vars PNone = PNone
       \<and> interpolate_value vars (PBool b) = PBool b
       \<and> interpolate_value vars (PInt i) = PInt i
       \<and> interpolate_value vars (PObj t u h) = PObj t u h"
  using assms by (simp add: interpolate_str_no_dollar)

theorem interpolate_idempotent_without_dollar_witness:
  "CHR ''$'' \<notin> set ''plain text''
   \<and> interpolate_value [(''a'', PInt 1)] (PStr ''plain text'') = PStr ''plain text''
   \<and> interpolate_value [(''a'', PInt 1)] (interpolate_value [(''a'', PInt 1)] (PStr ''plain text''))
       = interpolate_value [(''a'', PInt 1)] (PStr ''plain text'')"
proof -
  have h: "CHR ''$'' \<notin> set ''plain text''" by simp
  from interpolate_idempotent_without_dollar [OF h, of "[(''a'', PInt 1)]"] h
  show ?thesis by blast
qed

lemma py_replace_self: "p \<noteq> [] \<Longrightarrow> py_replace p r p = r"
  by (cases p) simp_all

lemma py_in_self: "p \<noteq> [] \<Longrightarrow> py_in p p"
  by (cases p) simp_all

lemma interpolate_str_append:
  "interpolate_str (vs @ ws) s = interpolate_str ws (interpolate_str vs s)"
  by (simp add: interpolate_str_def)

lemma interpolate_str_untouched:
  "\<forall>kv \<in> set vs. \<not> py_in (placeholder (fst kv)) s \<Longrightarrow> interpolate_str vs s = s"
  unfolding interpolate_str_def
  by (induction vs) (simp_all add: subst_var_def)

text \<open>
  Claim C6 as stated fails: with \<open>a = "$b"\<close> stored before \<open>b = "X"\<close>, the text \<open>$b\<close> that
  the substitution of \<open>$a\<close> brings in is substituted again when the loop reaches \<open>b\<close>.
\<close>

theorem interpolate_resubstitutes:
  "interpolate_value [(''a'', PStr ''$b''), (''b'', PStr ''X'')] (PStr ''$a'') = PStr ''X''"
  by (simp add: interpolate_str_def subst_var_def placeholder_def)

text \<open>
  Claim C6, amended. Interpolation is one pass over the store in its insertion order,
  each variable working on the text the variables before it have produced. Text that a
  substitution brings in is therefore scanned by the variables that come later in the
  store, and by no other: when \<open>name\<close> is the last variable and no earlier placeholder
  occurs in \<open>$name\<close>, the input \<open>$name\<close> becomes the string form of its value as it is,
  whatever placeholders that value contains.
\<close>

theorem interpolate_single_pass:
  "interpolate_str (vs @ ws) s = interpolate_str ws (interpolate_str vs s)
   \<and> ((\<forall>kv \<in> set vs. \<not> py_in (placeholder (fst kv)) (placeholder name))
        \<longrightarrow> interpolate_str (vs @ [(name, v)]) (placeholder name) = py_str v)"
proof -
  have "interpolate_str (vs @ [(name, v)]) (placeholder name) = py_str v"
    if "\<forall>kv \<in> set vs. \<not> py_in (placeholder (fst kv)) (placeholder name)"
  proof -
    have "interpolate_str vs (placeholder name) = placeholder name"
      using that by (rule interpolate_str_untouched)
    moreover have "placeholder name \<noteq> []" by (simp add: placeholder_def)
    ultimately show ?thesis
      by (simp add: interpolate_str_append interpolate_str_def subst_var_def
          py_replace_self py_in_self)
  qed
  then show ?thesis by (simp add: interpolate_str_append)
qed

theorem interpolate_single_pass_witness:
  "\<not> py_in (placeholder ''b'') (placeholder ''a'')
   \<and> interpolate_str ([(''b'', PStr ''X'')] @ [(''a'', PStr ''$b'')]) (placeholder ''a'') = ''$b''"
proof -
  have h: "\<forall>kv \<in> set [(''b'', PStr ''X'')]. \<not> py_in (placeholder (fst kv)) (placeholder ''a'')"
    by (simp add: placeholder_def)
  from interpolate_single_pass [of "[(''b'', PStr ''X'')]" "[]" "''''" "''a''" "PStr ''$b''"] h
  show ?thesis by simp
qed

section \<open>Properties of the condition evaluator\<close>








lemma evaluate_condition_presence:
  assumes "dict_get c ''variable'' = PStr x" "x \<noteq> []"
  shows "dict_get c ''operator'' = PStr ''exists''
           \<Longrightarrow> evaluate_condition W vars c = Inr (PBool (dict_get vars x \<noteq> PNone))"
    and "dict_get c ''operator'' = PStr ''not_exists''
           \<Longrightarrow> evaluate_condition W vars c = Inr (PBool (dict_get vars x = PNone))"
    and "dict_get c ''operator'' = PStr ''is_empty''
           \<Longrightarrow> evaluate_condition W vars c =
               Inr (PBool (\<not> truthy (dict_get vars x) \<or> py_str (dict_get vars x) = []))"
    and "dict_get c ''operator'' = PStr ''not_empty''
           \<Longrightarrow> evaluate_condition W vars c =
               Inr (if truthy (dict_get vars x) then PBool (py_str (dict_get vars x) \<noteq> [])
                    else dict_get vars x)"
  using assms by (simp_all add: evaluate_condition_def Let_def)







text \<open>
  Claim C7 as stated fails: for a variable that holds \<open>0\<close>, \<open>is_empty\<close> is true and
  \<open>not_empty\<close> returns the falsy \<open>0\<close>, since both test the value's truth before its
  string form.
\<close>

theorem is_empty_zero_counterexample:
  "evaluate_condition example_world [(''x'', PInt 0)]
     [(''variable'', PStr ''x''), (''operator'', PStr ''is_empty'')] = Inr (PBool True)
   \<and> evaluate_condition example_world [(''x'', PInt 0)]
     [(''variable'', PStr ''x''), (''operator'', PStr ''not_empty'')] = Inr (PInt 0)"
  by (simp add: evaluate_condition_def dict_get_def)

text \<open>
  Claim C7, amended. \<open>is_empty\<close> is true exactly when the variable's value is falsy (the
  variable is absent, or holds \<open>None\<close>, \<open>False\<close>, \<open>0\<close>, an empty string or another falsy
  object) or has an empty string form, and the result of \<open>not_empty\<close> is truthy exactly
  when \<open>is_empty\<close> is false. In particular an absent variable and a variable holding
  \<open>None\<close>, \<open>0\<close>, \<open>False\<close> or the empty string make \<open>is_empty\<close> true.
\<close>

theorem is_empty_tests_truthiness:
  assumes "dict_get c ''variable'' = PStr x" and "x \<noteq> []"
  shows "(dict_get c ''operator'' = PStr ''is_empty''
          \<longrightarrow> evaluate_condition W vars c =
              Inr (PBool (\<not> truthy (dict_get vars x) \<or> py_str (dict_get vars x) = [])))
       \<and> (dict_get c ''operator'' = PStr ''not_empty''
          \<longrightarrow> (\<exists>r. evaluate_condition W vars c = Inr r
                 \<and> (truthy r \<longleftrightarrow>
                      \<not> (\<not> truthy (dict_get vars x) \<or> py_str (dict_get vars x) = []))))
       \<and> (dict_get c ''operator'' = PStr ''is_empty''
            \<and> (map_of vars x = None \<or> map_of vars x = Some PNone
                \<or> map_of vars x = Some (PInt 0) \<or> map_of vars x = Some (PBool False)
                \<or> map_of vars x = Some (PStr []))
          \<longrightarrow> evaluate_condition W vars c = Inr (PBool True))"
proof (intro conjI impI)
  assume "dict_get c ''operator'' = PStr ''is_empty''"
  with assms show "evaluate_condition W vars c =
      Inr (PBool (\<not> truthy (dict_get vars x) \<or> py_str (dict_get vars x) = []))"
    by (rule evaluate_condition_presence(3))
next
  assume "dict_get c ''operator'' = PStr ''not_empty''"
  with assms have "evaluate_condition W vars c =
      Inr (if truthy (dict_get vars x) then PBool (py_str (dict_get vars x) \<noteq> [])
           else dict_get vars x)"
    by (rule evaluate_condition_presence(4))
  then show "\<exists>r. evaluate_condition W vars c = Inr r
      \<and> (truthy r \<longleftrightarrow> \<not> (\<not> truthy (dict_get vars x) \<or> py_str (dict_get vars x) = []))"
    by simp
next
  assume a: "dict_get c ''operator'' = PStr ''is_empty''
     \<and> (map_of vars x = None \<or> map_of vars x = Some PNone
         \<or> map_of vars x = Some (PInt 0) \<or> map_of vars x = Some (PBool False)
         \<or> map_of vars x = Some (PStr []))"
  then have "\<not> truthy (dict_get vars x)" by (auto simp: dict_get_def)
  with a assms show "evaluate_condition W vars c = Inr (PBool True)"
    by (simp add: evaluate_condition_presence(3))
qed

theorem is_empty_tests_truthiness_witness:
  "evaluate_condition example_world [(''flag'', PBool False)]
     [(''variable'', PStr ''flag''), (''operator'', PStr ''is_empty'')] = Inr (PBool True)
   \<and> truthy (PStr ''ok'')
   \<and> evaluate_condition example_world [(''s'', PStr ''ok'')]
        [(''variable'', PStr ''s''), (''operator'', PStr ''not_empty'')] = Inr (PBool True)"
proof -
  have "\<exists>r. evaluate_condition example_world [(''s'', PStr ''ok'')]
        [(''variable'', PStr ''s''), (''operator'', PStr ''not_empty'')] = Inr r \<and> truthy r"
    using is_empty_tests_truthiness [of
      "[(''variable'', PStr ''s''), (''operator'', PStr ''not_empty'')]" "''s''"
      example_world "[(''s'', PStr ''ok'')]"]
    by (simp add: dict_get_def)
  moreover have "evaluate_condition example_world [(''s'', PStr ''ok'')]
        [(''variable'', PStr ''s''), (''operator'', PStr ''not_empty'')] = Inr (PBool True)"
    by (simp add: evaluate_condition_def dict_get_def)
  moreover have "evaluate_condition example_world [(''flag'', PBool False)]
     [(''variable'', PStr ''flag''), (''operator'', PStr ''is_empty'')] = Inr (PBool True)"
    using is_empty_tests_truthiness [of
      "[(''variable'', PStr ''flag''), (''operator'', PStr ''is_empty'')]" "''flag''"
      example_world "[(''flag'', PBool False)]"]
    by (simp add: dict_get_def)
  ultimately show ?thesis by simp
qed

section \<open>Evaluation of closed examples\<close>

lemmas engine_eval =
  execute_step.simps try_body.simps run_loop.simps execute_script_def run_script_def
  run_script_variables_def merge_script_variables_def new_engine_def dict_update_def
  dispatch_action_def step_to_action_def action_types_def execute_def interpolate_params_def
  interpolate_field_def interpolate_str_def subst_var_def placeholder_def
  set_variable_def count_step_def error_strategy_def max_retry_of_def
  evaluate_condition_def dict_get_def
  example_world_def blank_def blank_page_handler_def navigate_handler_def click_handler_def
  get_url_handler_def sleep_handler_def
  click_missing_def get_url_step_def sleep_step_def

section \<open>The try block by the shape of the step\<close>

lemma run_loop_is_loop_over:
  "run_loop W lv body i stop \<sigma> = loop_over W lv body [i..stop - 1] \<sigma>"
proof (induction "nat (stop - i)" arbitrary: i \<sigma>)
  case 0
  then have "\<not> i < stop" by simp
  then show ?case by (simp add: run_loop.simps [of W lv body i stop \<sigma>])
next
  case (Suc n)
  then have lt: "i < stop" and n: "n = nat (stop - (i + 1))" by simp_all
  from lt have up: "[i..stop - 1] = i # [i + 1..stop - 1]" by (simp add: upto_rec1)
  show ?case
    using lt Suc.hyps(1) [OF n]
    by (simp add: run_loop.simps [of W lv body i stop \<sigma>] up split: prod.splits sum.splits)
qed

lemma try_body_action:
  assumes "\<not> (truthy_opt (condition st) \<and> truthy_opt (then_steps st))"
    and "\<not> (truthy_opt (loop_range st) \<and> truthy_opt (loop_steps st))"
  shows "try_body W st \<sigma> = dispatch_action W st \<sigma>"
  by (subst try_body.simps) (simp only: if_not_P [OF assms(1)] if_not_P [OF assms(2)])

lemma try_body_loop:
  assumes "\<not> (truthy_opt (condition st) \<and> truthy_opt (then_steps st))"
    and "truthy_opt (loop_range st) \<and> truthy_opt (loop_steps st)"
  shows "try_body W st \<sigma> =
     (if length (items_of (loop_range st)) \<noteq> 2
      then (Inl (ValueError ''loop_range must have exactly 2 elements: [start, end]''), \<sigma>)
      else
        (case loop_over W
                (if truthy_opt (loop_variable st) then items_of (loop_variable st) else ''i'')
                (items_of (loop_steps st))
                [items_of (loop_range st) ! 0..items_of (loop_range st) ! 1] \<sigma> of
           (Inl e, \<sigma>') \<Rightarrow> (Inl e, \<sigma>')
         | (Inr u, \<sigma>') \<Rightarrow> (Inr PNone, count_step \<sigma>')))"
  by (subst try_body.simps)
     (simp only: if_not_P [OF assms(1)] if_P [OF assms(2)] run_loop_is_loop_over add_diff_cancel_right')

lemma try_body_conditional:
  assumes "truthy_opt (condition st) \<and> truthy_opt (then_steps st)"
  shows "try_body W st \<sigma> =
     (case evaluate_condition W (variables \<sigma>) (items_of (condition st)) of
        Inl e \<Rightarrow> (Inl e, \<sigma>)
      | Inr condition_result \<Rightarrow>
          (case (if truthy condition_result \<and> truthy_opt (then_steps st)
                 then run_steps W (items_of (then_steps st)) \<sigma>
                 else if \<not> truthy condition_result \<and> truthy_opt (else_steps st)
                 then run_steps W (items_of (else_steps st)) \<sigma>
                 else (Inr (), \<sigma>)) of
             (Inl e, \<sigma>') \<Rightarrow> (Inl e, \<sigma>')
           | (Inr u, \<sigma>') \<Rightarrow> (Inr PNone, count_step \<sigma>')))"
  by (subst try_body.simps) (simp only: if_P [OF assms])

lemma try_body_is_spec_conditional:
  assumes "truthy_opt (condition st) \<and> truthy_opt (then_steps st)"
  shows "try_body W st \<sigma> =
     spec_conditional W (items_of (condition st)) (items_of (then_steps st))
       (items_of (else_steps st)) \<sigma>"
proof -
  have e: "\<not> truthy_opt (else_steps st) \<Longrightarrow> items_of (else_steps st) = []"
    by (cases "else_steps st") simp_all
  show ?thesis
    using assms e
    by (auto simp: try_body_conditional spec_conditional_def split: sum.splits)
qed

lemma execute_step_cong:
  assumes "\<And>\<sigma>. try_body W st \<sigma> = try_body W st' \<sigma>"
    and "error_strategy st = error_strategy st'"
    and "max_retry_of st = max_retry_of st'"
  shows "execute_step W st rc \<sigma> = execute_step W st' rc \<sigma>"
proof (induction "nat (max_retry_of st - int rc)" arbitrary: rc \<sigma> rule: less_induct)
  case less
  obtain r \<sigma>' where t: "try_body W st' \<sigma> = (r, \<sigma>')" by (cases "try_body W st' \<sigma>")
  show ?case
  proof (cases "\<exists>e. r = Inl e \<and> error_strategy st' \<noteq> ''skip''
                  \<and> error_strategy st' = ''retry'' \<and> int rc < max_retry_of st'")
    case True
    then have "nat (max_retry_of st - int (Suc rc)) < nat (max_retry_of st - int rc)"
      using assms(3) by simp
    from less [OF this] have "execute_step W st (Suc rc) \<sigma>' = execute_step W st' (Suc rc) \<sigma>'" .
    with True t show ?thesis
      by (auto simp: execute_step.simps [of W st rc \<sigma>] execute_step.simps [of W st' rc \<sigma>]
          assms)
  next
    case False
    with t show ?thesis
      by (auto simp: execute_step.simps [of W st rc \<sigma>] execute_step.simps [of W st' rc \<sigma>]
          assms split: sum.splits)
  qed
qed

section \<open>Script runner\<close>

lemma run_steps_append:
  "run_steps W (xs @ ys) \<sigma> =
     (case run_steps W xs \<sigma> of (Inl e, \<sigma>') \<Rightarrow> (Inl e, \<sigma>') | (Inr u, \<sigma>') \<Rightarrow> run_steps W ys \<sigma>')"
  by (induction xs arbitrary: \<sigma>) (auto split: prod.splits sum.splits)

text \<open>
  Claim C4. \<open>execute_script\<close> is a total function into run results: whatever the actor
  does, the run ends (the termination proof above) and the caller gets a result, in which
  \<open>success\<close> is false exactly when \<open>error\<close> is set. When the steps before \<open>st\<close> succeed
  and \<open>st\<close> raises \<open>e\<close> past its own error policy, the result has \<open>success = False\<close>,
  the message of \<open>e\<close> as \<open>error\<close>, and as \<open>steps_completed\<close> the counter at the moment
  of the failure: the steps after \<open>st\<close> are neither run nor counted.
\<close>

theorem execute_script_failure_is_a_value:
  "(run_success (fst (execute_script W sc \<sigma>)) \<longleftrightarrow> run_error (fst (execute_script W sc \<sigma>)) = None)
   \<and> (steps sc = pre @ st # post
        \<and> run_steps W pre (merge_script_variables sc (\<sigma> \<lparr> steps_completed := 0 \<rparr>)) = (Inr (), \<sigma>1)
        \<and> execute_step W st 0 \<sigma>1 = (Inl e, \<sigma>2)
      \<longrightarrow> execute_script W sc \<sigma> =
            (\<lparr> run_success = False,
                run_steps_completed = steps_completed \<sigma>2,
                run_variables = variables \<sigma>2,
                run_error = Some (exn_msg e) \<rparr>, \<sigma>2))"
proof (intro conjI impI)
  show "run_success (fst (execute_script W sc \<sigma>)) \<longleftrightarrow> run_error (fst (execute_script W sc \<sigma>)) = None"
    by (simp add: execute_script_def split: prod.splits sum.splits)
next
  assume a: "steps sc = pre @ st # post
        \<and> run_steps W pre (merge_script_variables sc (\<sigma> \<lparr> steps_completed := 0 \<rparr>)) = (Inr (), \<sigma>1)
        \<and> execute_step W st 0 \<sigma>1 = (Inl e, \<sigma>2)"
  then have "run_steps W (steps sc) (merge_script_variables sc (\<sigma> \<lparr> steps_completed := 0 \<rparr>))
      = (Inl e, \<sigma>2)"
    by (simp add: run_steps_append)
  then show "execute_script W sc \<sigma> =
            (\<lparr> run_success = False,
                run_steps_completed = steps_completed \<sigma>2,
                run_variables = variables \<sigma>2,
                run_error = Some (exn_msg e) \<rparr>, \<sigma>2)"
    by (simp add: execute_script_def)
qed

theorem execute_script_failure_is_a_value_witness:
  "fst (execute_script example_world
      \<lparr> script_name = ''demo'', description = None, script_variables = [],
        session_config = None,
        steps = [get_url_step, click_missing (Some ''abort'') (Some 3), get_url_step] \<rparr>
      (new_engine None blank))
   = \<lparr> run_success = False, run_steps_completed = 1,
       run_variables = [(''here'', PStr ''about:blank'')],
       run_error = Some ''Element not found: #missing'' \<rparr>"
proof -
  let ?sc = "\<lparr> script_name = ''demo'', description = None, script_variables = [],
        session_config = None,
        steps = [get_url_step, click_missing (Some ''abort'') (Some 3), get_url_step] \<rparr>"
  let ?s1 = "\<lparr> variables = [(''here'', PStr ''about:blank'')],
               ae_variables = [(''here'', PStr ''about:blank'')],
               steps_completed = 1,
               driver = \<lparr> current_url = ''about:blank'', dispatched = [''get_url''] \<rparr> \<rparr>"
  let ?s2 = "\<lparr> variables = [(''here'', PStr ''about:blank'')],
               ae_variables = [(''here'', PStr ''about:blank'')],
               steps_completed = 1,
               driver = \<lparr> current_url = ''about:blank'', dispatched = [''get_url'', ''click''] \<rparr> \<rparr>"
  have pre: "run_steps example_world [get_url_step]
      (merge_script_variables ?sc ((new_engine None blank) \<lparr> steps_completed := 0 \<rparr>)) = (Inr (), ?s1)"
    by (simp add: engine_eval)
  have fail: "execute_step example_world (click_missing (Some ''abort'') (Some 3)) 0 ?s1
      = (Inl (PyException ''Element not found: #missing''), ?s2)"
    by (simp add: engine_eval)
  have split: "steps ?sc = [get_url_step] @ click_missing (Some ''abort'') (Some 3) # [get_url_step]"
    by simp
  from execute_script_failure_is_a_value [of example_world ?sc "new_engine None blank"
      "[get_url_step]" "click_missing (Some ''abort'') (Some 3)" "[get_url_step]" ?s1
      "PyException ''Element not found: #missing''" ?s2] split pre fail
  show ?thesis by simp
qed

lemma map_of_dict_update: "map_of (dict_update d other) = map_of d ++ map_of (rev other)"
  unfolding dict_update_def
  by (induction other arbitrary: d) (auto simp: update_conv')

lemma script_defaults_win:
  assumes "distinct (map fst (script_variables sc))" and "(k, v) \<in> set (script_variables sc)"
  shows "map_of (variables (merge_script_variables sc \<sigma>)) k = Some v"
proof -
  from assms(1) have "distinct (map fst (rev (script_variables sc)))"
    by (simp add: rev_map [symmetric])
  with assms(2) have "map_of (rev (script_variables sc)) k = Some v"
    by simp
  with assms(2) show ?thesis
    by (auto simp: merge_script_variables_def map_of_dict_update map_add_def)
qed

text \<open>
  Claim C1 at the input \<open>script.variables = {x: 1}\<close>, \<open>request.variables = {x: 2}\<close>:
  \<open>run_script\<close> builds the store with the caller's value on top of the script's default,
  and \<open>execute_script\<close> then applies the script's defaults on top of the store, so the run
  sees \<open>x = 1\<close>. The lemma before it says that this happens to every key the script declares.
\<close>

theorem script_defaults_overwrite_caller:
  "run_script_variables
     \<lparr> script_name = ''demo'', description = None, script_variables = [(''x'', PInt 1)],
       session_config = None, steps = [] \<rparr>
     (Some [(''x'', PInt 2)]) = [(''x'', PInt 2)]
   \<and> fst (run_script example_world
     \<lparr> script_name = ''demo'', description = None, script_variables = [(''x'', PInt 1)],
       session_config = None, steps = [] \<rparr>
     (Some [(''x'', PInt 2)]) blank)
   = \<lparr> run_success = True, run_steps_completed = 0,
       run_variables = [(''x'', PInt 1)], run_error = None \<rparr>"
  by (simp add: engine_eval)

section \<open>Retries\<close>

text \<open>
  A retry step that fails on every attempt is attempted once more than \<open>max_retry\<close> reads,
  and then raises: three attempts for \<open>max_retry = 2\<close>, and four for \<open>max_retry = 0\<close>,
  which \<open>step.max_retry or 3\<close> reads as \<open>3\<close>.
\<close>

lemma retry_until_exhausted:
  assumes "error_strategy st = ''retry''"
    and "\<And>\<tau>. \<exists>e \<tau>'. try_body W st \<tau> = (Inl e, \<tau>')"
    and "int rc \<le> max_retry_of st"
  shows "attempts W st rc \<sigma> = nat (max_retry_of st - int rc) + 1
       \<and> (\<exists>e \<sigma>'. execute_step W st rc \<sigma> = (Inl e, \<sigma>'))"
  using assms(3)
proof (induction "nat (max_retry_of st - int rc)" arbitrary: rc \<sigma>)
  case 0
  then have stop: "\<not> int rc < max_retry_of st" by simp
  from assms(2) [of \<sigma>] obtain e \<tau> where t: "try_body W st \<sigma> = (Inl e, \<tau>)" by blast
  from 0 stop t show ?case
    by (simp add: attempts.simps [of W st rc \<sigma>] execute_step.simps [of W st rc \<sigma>] assms(1))
next
  case (Suc n)
  then have lt: "int rc < max_retry_of st"
    and n: "n = nat (max_retry_of st - int (Suc rc))"
    and le: "int (Suc rc) \<le> max_retry_of st"
    by simp_all
  from assms(2) [of \<sigma>] obtain e \<tau> where t: "try_body W st \<sigma> = (Inl e, \<tau>)" by blast
  from Suc.hyps(1) [OF n le, of \<tau>] Suc.hyps(2) lt t show ?case
    by (simp add: attempts.simps [of W st rc \<sigma>] execute_step.simps [of W st rc \<sigma>] assms(1))
qed

lemma retry_two_is_three_attempts:
  assumes "on_error st = Some ''retry''" and "max_retry st = Some 2"
    and "\<And>\<tau>. \<exists>e \<tau>'. try_body W st \<tau> = (Inl e, \<tau>')"
  shows "attempts W st 0 \<sigma> = 3 \<and> (\<exists>e \<sigma>'. execute_step W st 0 \<sigma> = (Inl e, \<sigma>'))"
  using retry_until_exhausted [of st W 0 \<sigma>] assms
  by (simp add: error_strategy_def max_retry_of_def)

lemma retry_zero_is_four_attempts:
  assumes "on_error st = Some ''retry''" and "max_retry st = Some 0"
    and "\<And>\<tau>. \<exists>e \<tau>'. try_body W st \<tau> = (Inl e, \<tau>')"
  shows "attempts W st 0 \<sigma> = 4 \<and> (\<exists>e \<sigma>'. execute_step W st 0 \<sigma> = (Inl e, \<sigma>'))"
  using retry_until_exhausted [of st W 0 \<sigma>] assms
  by (simp add: error_strategy_def max_retry_of_def)

lemma click_missing_attempt:
  "try_body example_world (click_missing oe mr) \<sigma> =
     (Inl (PyException ''Element not found: #missing''),
      \<sigma> \<lparr> driver := (driver \<sigma>) \<lparr> dispatched := dispatched (driver \<sigma>) @ [''click''] \<rparr> \<rparr>)"
proof -
  have "try_body example_world (click_missing oe mr) \<sigma>
      = dispatch_action example_world (click_missing oe mr) \<sigma>"
    by (rule try_body_action) (simp_all add: click_missing_def)
  then show ?thesis
    by (simp add: dispatch_action_def step_to_action_def action_types_def execute_def
        interpolate_params_def interpolate_field_def interpolate_str_no_dollar
        example_world_def blank_page_handler_def click_handler_def click_missing_def)
qed

lemma retry_attempts_on_blank_page:
  assumes "0 < m" and "int rc \<le> m"
  shows "execute_step example_world (click_missing (Some ''retry'') (Some m)) rc \<sigma> =
     (Inl (PyException ''Element not found: #missing''),
      \<sigma> \<lparr> driver := (driver \<sigma>)
            \<lparr> dispatched := dispatched (driver \<sigma>) @ replicate (nat (m - int rc) + 1) ''click'' \<rparr> \<rparr>)"
proof -
  have st: "error_strategy (click_missing (Some ''retry'') (Some m)) = ''retry''"
    and mr: "max_retry_of (click_missing (Some ''retry'') (Some m)) = m"
    using assms(1) by (simp_all add: error_strategy_def max_retry_of_def click_missing_def)
  from assms(2) show ?thesis
  proof (induction "nat (m - int rc)" arbitrary: rc \<sigma>)
    case 0
    then have "\<not> int rc < m" by simp
    then show ?case
      by (simp add: execute_step.simps [of _ _ rc \<sigma>] click_missing_attempt st mr)
  next
    case (Suc n)
    then have lt: "int rc < m" and n: "n = nat (m - int (Suc rc))" and le: "int (Suc rc) \<le> m"
      by simp_all
    have r: "nat (m - int rc) = Suc (nat (m - (1 + int rc)))"
      using lt by simp
    show ?case
      using lt
      by (simp add: execute_step.simps [of _ _ rc \<sigma>] click_missing_attempt st mr
          Suc.hyps(1) [OF n le] r)
  qed
qed

text \<open>
  Claim C2 on a step that always fails (a click on an element the page does not have):
  with \<open>on_error = "retry"\<close> and \<open>max_retry = 2\<close> the handler is called three times and the
  error is raised again; with \<open>max_retry = 0\<close> it is called four times, since
  \<open>step.max_retry or 3\<close> reads \<open>0\<close> as \<open>3\<close>.
\<close>

theorem retry_zero_means_three:
  "execute_step example_world (click_missing (Some ''retry'') (Some 2)) 0 (new_engine None blank)
   = (Inl (PyException ''Element not found: #missing''),
      \<lparr> variables = [], ae_variables = [], steps_completed = 0,
        driver = \<lparr> current_url = ''about:blank'',
                   dispatched = [''click'', ''click'', ''click''] \<rparr> \<rparr>)
   \<and> execute_step example_world (click_missing (Some ''retry'') (Some 0)) 0 (new_engine None blank)
   = (Inl (PyException ''Element not found: #missing''),
      \<lparr> variables = [], ae_variables = [], steps_completed = 0,
        driver = \<lparr> current_url = ''about:blank'',
                   dispatched = [''click'', ''click'', ''click'', ''click''] \<rparr> \<rparr>)"
  by (simp add: engine_eval)

section \<open>Action dispatcher: what reaches the handler\<close>

lemma interpolate_field_twice:
  "map_option (interpolate_str ae_vars) (interpolate_field vars f) = passed_field vars ae_vars f"
  by (cases f) (simp_all add: interpolate_field_def passed_field_def)

lemma dispatch_passes_five_fields:
  "(action st \<in> set action_types \<longrightarrow>
      (\<exists>req. step_to_action vars st = Inr req
         \<and> execute W ae_vars req d =
             handler W
               \<lparr> ar_action = action st,
                 ar_selector = passed_field vars ae_vars (selector st),
                 ar_url = passed_field vars ae_vars (url st),
                 ar_text = passed_field vars ae_vars (text_field st),
                 ar_value = passed_field vars ae_vars (value_field st),
                 ar_attribute = None,
                 ar_script = passed_field vars ae_vars (script st),
                 ar_cookies = None, ar_cookies_text = None,
                 ar_seconds = None, ar_min_seconds = None, ar_max_seconds = None,
                 ar_tab_index = None, ar_iframe_selector = None, ar_save_as = None,
                 ar_params = None \<rparr> d))
   \<and> (action st \<notin> set action_types \<longrightarrow>
        (\<exists>m. dispatch_action W st \<sigma> = (Inl (ValueError m), \<sigma>)))"
  by (simp add: step_to_action_def execute_def interpolate_params_def interpolate_field_twice
      dispatch_action_def)

lemma dispatch_passes_five_fields_example:
  "execute example_world [(''b'', PStr ''X''), (''a'', PStr ''$b'')]
     \<lparr> ar_action = ''navigate'', ar_selector = None, ar_url = Some ''$b'', ar_text = None,
       ar_value = None, ar_attribute = None, ar_script = None, ar_cookies = None,
       ar_cookies_text = None, ar_seconds = None, ar_min_seconds = None,
       ar_max_seconds = None, ar_tab_index = None, ar_iframe_selector = None,
       ar_save_as = None, ar_params = None \<rparr> blank
   = (Inr (PStr ''X''), \<lparr> current_url = ''X'', dispatched = [''navigate''] \<rparr>)
   \<and> step_to_action [(''b'', PStr ''X''), (''a'', PStr ''$b'')]
       (Step ''navigate'' None (Some ''$a'') None None None None None None None None None None
          (Some ''abort'') (Some 3))
   = Inr (\<lparr> ar_action = ''navigate'', ar_selector = None, ar_url = Some ''$b'', ar_text = None,
       ar_value = None, ar_attribute = None, ar_script = None, ar_cookies = None,
       ar_cookies_text = None, ar_seconds = None, ar_min_seconds = None,
       ar_max_seconds = None, ar_tab_index = None, ar_iframe_selector = None,
       ar_save_as = None, ar_params = None \<rparr> :: int action_request)"
  using dispatch_passes_five_fields [of
      "Step ''navigate'' None (Some ''$a'') None None None None None None None None None None
          (Some ''abort'') (Some 3)"
      "[(''b'', PStr ''X''), (''a'', PStr ''$b'')]" example_world
      "[(''b'', PStr ''X''), (''a'', PStr ''$b'')]" blank]
  by (simp add: engine_eval passed_field_def)

text \<open>
  Claim C3 on a \<open>sleep\<close> step: the request that \<open>_step_to_action\<close> builds has no
  \<open>seconds\<close> (a \<open>ScriptStep\<close> has no field to take them from), and the \<open>_sleep\<close>
  handler raises \<open>ValueError\<close> on it.
\<close>

theorem sleep_step_gets_no_seconds:
  "step_to_action [] sleep_step =
     Inr (\<lparr> ar_action = ''sleep'', ar_selector = None, ar_url = None, ar_text = None,
            ar_value = None, ar_attribute = None, ar_script = None, ar_cookies = None,
            ar_cookies_text = None, ar_seconds = None, ar_min_seconds = None,
            ar_max_seconds = None, ar_tab_index = None, ar_iframe_selector = None,
            ar_save_as = None, ar_params = None \<rparr> :: int action_request)
   \<and> dispatch_action example_world sleep_step (new_engine None blank)
     = (Inl (ValueError ''Seconds is required for sleep action''),
        \<lparr> variables = [], ae_variables = [], steps_completed = 0,
          driver = \<lparr> current_url = ''about:blank'', dispatched = [''sleep''] \<rparr> \<rparr>)"
  by (simp add: engine_eval)

section \<open>Loops\<close>

lemma action_step_counts:
  assumes "\<not> (truthy_opt (condition a) \<and> truthy_opt (then_steps a))"
    and "\<not> (truthy_opt (loop_range a) \<and> truthy_opt (loop_steps a))"
    and "action a \<in> set action_types"
    and "\<forall>req d. ar_action req = action a \<longrightarrow> (\<exists>r d'. handler W req d = (Inr r, d'))"
  shows "\<exists>r \<sigma>'. execute_step W a rc \<sigma> = (Inr r, \<sigma>')
           \<and> steps_completed \<sigma>' = steps_completed \<sigma> + 1"
proof -
  obtain req :: "'a action_request" where req: "step_to_action (variables \<sigma>) a = Inr req"
    and act: "ar_action req = action a"
    using assms(3) by (simp add: step_to_action_def)
  from act have "ar_action (interpolate_params (ae_variables \<sigma>) req) = action a"
    by (simp add: interpolate_params_def)
  with assms(4) obtain r d' where
    h: "handler W (interpolate_params (ae_variables \<sigma>) req) (driver \<sigma>) = (Inr r, d')"
    by blast
  have "try_body W a \<sigma> = dispatch_action W a \<sigma>"
    using assms(1,2) by (rule try_body_action)
  with req h show ?thesis
    by (simp add: execute_step.simps [of W a rc \<sigma>] dispatch_action_def execute_def
        count_step_def set_variable_def)
qed

lemma loop_over_counts:
  assumes "\<And>\<sigma>. \<exists>\<sigma>'. run_steps W body \<sigma> = (Inr (), \<sigma>')
             \<and> steps_completed \<sigma>' = steps_completed \<sigma> + k"
  shows "\<exists>\<sigma>'. loop_over W lv body is \<sigma> = (Inr (), \<sigma>')
           \<and> steps_completed \<sigma>' = steps_completed \<sigma> + k * int (length is)"
proof (induction "is" arbitrary: \<sigma>)
  case Nil
  show ?case by simp
next
  case (Cons i rest)
  from assms [of "set_variable lv (PInt i) \<sigma>"] obtain \<sigma>1 where
    b: "run_steps W body (set_variable lv (PInt i) \<sigma>) = (Inr (), \<sigma>1)"
    and c: "steps_completed \<sigma>1 = steps_completed \<sigma> + k"
    by (auto simp: set_variable_def)
  from Cons [of \<sigma>1] obtain \<sigma>2 where
    "loop_over W lv body rest \<sigma>1 = (Inr (), \<sigma>2)"
    "steps_completed \<sigma>2 = steps_completed \<sigma>1 + k * int (length rest)"
    by blast
  with b c show ?case by (simp add: algebra_simps)
qed

text \<open>
  Claim C8. A step that is not a conditional and has the range \<open>[start, finish]\<close> with
  \<open>start \<le> finish\<close> and a non-empty body runs as the loop of the specification over
  every integer from \<open>start\<close> to \<open>finish\<close>: each index is written into the loop variable
  (\<open>loop_variable\<close>, or \<open>i\<close> when that is not set) before the body runs, and after the
  last iteration the loop counts itself once. When the body is one action step whose
  handler succeeds, each iteration counts one step, so the loop step adds
  \<open>(finish - start + 1) + 1\<close> to \<open>steps_completed\<close>; for \<open>[1, 3]\<close> that is 3 plus 1.
\<close>

theorem loop_step_iterates:
  assumes "\<not> (truthy_opt (condition st) \<and> truthy_opt (then_steps st))"
    and "loop_range st = Some [start, finish]"
    and "loop_steps st = Some body"
    and "body \<noteq> []"
    and "start \<le> finish"
  shows "try_body W st \<sigma> =
           (case loop_over W
                   (if truthy_opt (loop_variable st) then items_of (loop_variable st) else ''i'')
                   body [start..finish] \<sigma> of
              (Inl e, \<sigma>') \<Rightarrow> (Inl e, \<sigma>')
            | (Inr u, \<sigma>') \<Rightarrow> (Inr PNone, count_step \<sigma>'))
       \<and> (body = [a]
            \<and> \<not> (truthy_opt (condition a) \<and> truthy_opt (then_steps a))
            \<and> \<not> (truthy_opt (loop_range a) \<and> truthy_opt (loop_steps a))
            \<and> action a \<in> set action_types
            \<and> (\<forall>req d. ar_action req = action a \<longrightarrow> (\<exists>r d'. handler W req d = (Inr r, d')))
          \<longrightarrow> (\<exists>\<sigma>'. execute_step W st rc \<sigma> = (Inr PNone, \<sigma>')
                 \<and> steps_completed \<sigma>' = steps_completed \<sigma> + (finish - start + 1) + 1))"
proof (intro conjI impI)
  let ?lv = "if truthy_opt (loop_variable st) then items_of (loop_variable st) else ''i''"
  show body: "try_body W st \<sigma> =
           (case loop_over W ?lv body [start..finish] \<sigma> of
              (Inl e, \<sigma>') \<Rightarrow> (Inl e, \<sigma>')
            | (Inr u, \<sigma>') \<Rightarrow> (Inr PNone, count_step \<sigma>'))"
    using assms(1-4) by (simp add: try_body_loop)
  assume a: "body = [a]
            \<and> \<not> (truthy_opt (condition a) \<and> truthy_opt (then_steps a))
            \<and> \<not> (truthy_opt (loop_range a) \<and> truthy_opt (loop_steps a))
            \<and> action a \<in> set action_types
            \<and> (\<forall>req d. ar_action req = action a \<longrightarrow> (\<exists>r d'. handler W req d = (Inr r, d')))"
  have one: "\<exists>\<sigma>'. run_steps W body \<tau> = (Inr (), \<sigma>') \<and> steps_completed \<sigma>' = steps_completed \<tau> + 1"
    for \<tau>
  proof -
    from a action_step_counts [of a W 0 \<tau>] obtain r \<sigma>' where
      "execute_step W a 0 \<tau> = (Inr r, \<sigma>')" "steps_completed \<sigma>' = steps_completed \<tau> + 1"
      by blast
    with a show ?thesis by simp
  qed
  from loop_over_counts [of W body 1 ?lv "[start..finish]" \<sigma>, OF one] obtain \<sigma>1 where
    l: "loop_over W ?lv body [start..finish] \<sigma> = (Inr (), \<sigma>1)"
    and c: "steps_completed \<sigma>1 = steps_completed \<sigma> + 1 * int (length [start..finish])"
    by blast
  from assms(5) have len: "int (length [start..finish]) = finish - start + 1" by simp
  from body l have "try_body W st \<sigma> = (Inr PNone, count_step \<sigma>1)" by simp
  then have "execute_step W st rc \<sigma> = (Inr PNone, count_step \<sigma>1)"
    by (simp add: execute_step.simps [of W st rc \<sigma>])
  with c len show "\<exists>\<sigma>'. execute_step W st rc \<sigma> = (Inr PNone, \<sigma>')
                 \<and> steps_completed \<sigma>' = steps_completed \<sigma> + (finish - start + 1) + 1"
    by (simp add: count_step_def)
qed

theorem loop_step_iterates_witness:
  "execute_step example_world
     (Step ''get_url'' None None None None None None None None None
        (Some [1, 3]) None (Some [get_url_step]) (Some ''abort'') (Some 3))
     0 (new_engine None blank)
   = (Inr PNone,
      \<lparr> variables = [(''i'', PInt 3), (''here'', PStr ''about:blank'')],
        ae_variables = [(''i'', PInt 3), (''here'', PStr ''about:blank'')],
        steps_completed = 4,
        driver = \<lparr> current_url = ''about:blank'',
                   dispatched = [''get_url'', ''get_url'', ''get_url''] \<rparr> \<rparr>)"
proof -
  let ?st = "Step ''get_url'' None None None None None None None None None
        (Some [1, 3]) None (Some [get_url_step]) (Some ''abort'') (Some 3)"
  have ok: "\<forall>(req :: int action_request) d. ar_action req = action get_url_step
      \<longrightarrow> (\<exists>r d'. handler example_world req d = (Inr r, d'))"
    by (simp add: example_world_def blank_page_handler_def get_url_handler_def get_url_step_def)
  from loop_step_iterates [of ?st 1 3 "[get_url_step]" example_world "new_engine None blank"
      get_url_step 0] ok
  obtain \<sigma>' where "execute_step example_world ?st 0 (new_engine None blank) = (Inr PNone, \<sigma>')"
    and "steps_completed \<sigma>' = steps_completed (new_engine None blank :: blank_page engine) + (3 - 1 + 1) + 1"
    by (auto simp: get_url_step_def action_types_def)
  moreover have "execute_step example_world ?st 0 (new_engine None blank)
   = (Inr PNone,
      \<lparr> variables = [(''i'', PInt 3), (''here'', PStr ''about:blank'')],
        ae_variables = [(''i'', PInt 3), (''here'', PStr ''about:blank'')],
        steps_completed = 4,
        driver = \<lparr> current_url = ''about:blank'',
                   dispatched = [''get_url'', ''get_url'', ''get_url''] \<rparr> \<rparr>)"
    by (simp add: engine_eval)
  ultimately show ?thesis by simp
qed

section \<open>Step shapes\<close>

text \<open>
  Claim C10 as stated fails: a step whose condition is the empty dictionary (not \<open>None\<close>)
  and whose \<open>then\<close> body is not empty is dispatched as an action. Here \<open>get_url\<close> is
  called and its result returned; run as a conditional, the step would have returned
  \<open>None\<close> without calling the actor.
\<close>

theorem empty_condition_is_no_conditional:
  "execute_step example_world
     (Step ''get_url'' None None None None None None
        (Some []) (Some [click_missing (Some ''abort'') (Some 3)]) None
        None None None (Some ''abort'') (Some 3))
     0 (new_engine None blank)
   = (Inr (PStr ''about:blank''),
      \<lparr> variables = [], ae_variables = [], steps_completed = 1,
        driver = \<lparr> current_url = ''about:blank'', dispatched = [''get_url''] \<rparr> \<rparr>)"
  by (simp add: engine_eval)

text \<open>
  Claim C10, amended. A step whose condition is set and not empty and whose \<open>then\<close> body
  is set and not empty runs as a conditional, and its loop fields and action fields are
  ignored: two such steps that differ in those fields only run alike. Otherwise a step
  with a non-empty range and a non-empty loop body runs as a loop. Otherwise the step is
  dispatched as an action. So a step with a condition but an empty or missing \<open>then\<close>
  body is no conditional: it falls through to the loop test and then to the dispatch.
\<close>

theorem step_shape_priority:
  "(truthy_opt (condition st) \<and> truthy_opt (then_steps st)
      \<longrightarrow> try_body W st \<sigma> =
            spec_conditional W (items_of (condition st)) (items_of (then_steps st))
              (items_of (else_steps st)) \<sigma>)
   \<and> (\<not> (truthy_opt (condition st) \<and> truthy_opt (then_steps st))
        \<and> truthy_opt (loop_range st) \<and> truthy_opt (loop_steps st)
      \<longrightarrow> try_body W st \<sigma> =
            spec_loop W (items_of (loop_range st)) (loop_variable st) (items_of (loop_steps st)) \<sigma>)
   \<and> (\<not> (truthy_opt (condition st) \<and> truthy_opt (then_steps st))
        \<and> \<not> (truthy_opt (loop_range st) \<and> truthy_opt (loop_steps st))
      \<longrightarrow> try_body W st \<sigma> = dispatch_action W st \<sigma>)
   \<and> (c \<noteq> [] \<and> ts \<noteq> []
      \<longrightarrow> execute_step W (Step a sel u t v sc sv (Some c) (Some ts) es lr lv ls oe mr) rc \<sigma>
          = execute_step W (Step a' sel' u' t' v' sc' sv' (Some c) (Some ts) es lr' lv' ls' oe mr)
              rc \<sigma>)"
proof (intro conjI impI)
  assume "truthy_opt (condition st) \<and> truthy_opt (then_steps st)"
  then show "try_body W st \<sigma> =
            spec_conditional W (items_of (condition st)) (items_of (then_steps st))
              (items_of (else_steps st)) \<sigma>"
    by (rule try_body_is_spec_conditional)
next
  assume a: "\<not> (truthy_opt (condition st) \<and> truthy_opt (then_steps st))
        \<and> truthy_opt (loop_range st) \<and> truthy_opt (loop_steps st)"
  then have n: "\<not> (truthy_opt (condition st) \<and> truthy_opt (then_steps st))"
    and l: "truthy_opt (loop_range st) \<and> truthy_opt (loop_steps st)" by simp_all
  show "try_body W st \<sigma> =
      spec_loop W (items_of (loop_range st)) (loop_variable st) (items_of (loop_steps st)) \<sigma>"
    unfolding spec_loop_def by (rule try_body_loop [OF n l])
next
  assume "\<not> (truthy_opt (condition st) \<and> truthy_opt (then_steps st))
        \<and> \<not> (truthy_opt (loop_range st) \<and> truthy_opt (loop_steps st))"
  then show "try_body W st \<sigma> = dispatch_action W st \<sigma>"
    by (intro try_body_action) simp_all
next
  assume a: "c \<noteq> [] \<and> ts \<noteq> []"
  let ?l = "Step a sel u t v sc sv (Some c) (Some ts) es lr lv ls oe mr"
  let ?r = "Step a' sel' u' t' v' sc' sv' (Some c) (Some ts) es lr' lv' ls' oe mr"
  have "try_body W ?l \<tau> = try_body W ?r \<tau>" for \<tau>
    using a by (simp add: try_body_is_spec_conditional)
  then show "execute_step W ?l rc \<sigma> = execute_step W ?r rc \<sigma>"
    by (rule execute_step_cong) (simp_all add: error_strategy_def max_retry_of_def)
qed

theorem step_shape_priority_witness:
  "try_body example_world
     (Step ''click'' (Some ''#missing'') None None None None None
        (Some [(''variable'', PStr ''x''), (''operator'', PStr ''exists'')])
        (Some [get_url_step]) None
        (Some [1, 3]) None (Some [click_missing (Some ''abort'') (Some 3)])
        (Some ''abort'') (Some 3))
     (new_engine (Some [(''x'', PInt 1)]) blank)
   = (Inr PNone,
      \<lparr> variables = [(''x'', PInt 1), (''here'', PStr ''about:blank'')],
        ae_variables = [(''x'', PInt 1), (''here'', PStr ''about:blank'')],
        steps_completed = 2,
        driver = \<lparr> current_url = ''about:blank'', dispatched = [''get_url''] \<rparr> \<rparr>)
   \<and> try_body example_world
     (Step ''click'' (Some ''#missing'') None None None None None
        (Some [(''variable'', PStr ''x''), (''operator'', PStr ''exists'')]) None None
        (Some [1, 2]) None (Some [get_url_step])
        (Some ''abort'') (Some 3))
     (new_engine None blank)
   = (Inr PNone,
      \<lparr> variables = [(''i'', PInt 2), (''here'', PStr ''about:blank'')],
        ae_variables = [(''i'', PInt 2), (''here'', PStr ''about:blank'')],
        steps_completed = 3,
        driver = \<lparr> current_url = ''about:blank'', dispatched = [''get_url'', ''get_url''] \<rparr> \<rparr>)
   \<and> try_body example_world
     (Step ''get_url'' None None None None None None
        (Some [(''variable'', PStr ''x''), (''operator'', PStr ''exists'')]) None None
        None None None (Some ''abort'') (Some 3))
     (new_engine None blank)
   = (Inr (PStr ''about:blank''),
      \<lparr> variables = [], ae_variables = [], steps_completed = 1,
        driver = \<lparr> current_url = ''about:blank'', dispatched = [''get_url''] \<rparr> \<rparr>)"
  using
    step_shape_priority [of
      "Step ''click'' (Some ''#missing'') None None None None None
        (Some [(''variable'', PStr ''x''), (''operator'', PStr ''exists'')])
        (Some [get_url_step]) None
        (Some [1, 3]) None (Some [click_missing (Some ''abort'') (Some 3)])
        (Some ''abort'') (Some 3)"
      example_world "new_engine (Some [(''x'', PInt 1)]) blank"]
    step_shape_priority [of
      "Step ''click'' (Some ''#missing'') None None None None None
        (Some [(''variable'', PStr ''x''), (''operator'', PStr ''exists'')]) None None
        (Some [1, 2]) None (Some [get_url_step])
        (Some ''abort'') (Some 3)"
      example_world "new_engine None blank"]
    step_shape_priority [of
      "Step ''get_url'' None None None None None None
        (Some [(''variable'', PStr ''x''), (''operator'', PStr ''exists'')]) None None
        None None None (Some ''abort'') (Some 3)"
      example_world "new_engine None blank"]
  by (simp add: spec_conditional_def spec_loop_def engine_eval)

end
